theory Spec2Isabelle
  imports Main "HOL-Library.Char_ord" "HOL-Library.List_Lexorder" "HOL-Library.Sublist"
begin

section \<open>Python strings\<close>

text \<open>
  A Python \<open>str\<close> is modelled as a HOL \<open>string\<close> that holds the UTF-8 encoding of the
  text, so \<open>s.encode()\<close> is the identity and reading a file as UTF-8 text is a validity
  check of its bytes followed by the newline translation of text mode. A \<open>bytes\<close> value
  is a \<open>string\<close> as well. List comparison (\<open>min\<close>, \<open>max\<close>, \<open>sorted\<close>) is the
  lexicographic order on bytes, which is the order of code points. Case mapping
  (\<open>lower\<close>, \<open>title\<close>) is modelled on the ASCII letters; other bytes are uncased and
  unchanged.
\<close>

datatype py_exc = ValueError | IndexError | OSError | UnicodeDecodeError | ImportError

text \<open>\<open>s.split(sep)\<close> for a one-character separator.\<close>

fun split_on :: "char \<Rightarrow> string \<Rightarrow> string list" where
  "split_on sep [] = [[]]"
| "split_on sep (c # cs) =
     (if c = sep then [] # split_on sep cs
      else (case split_on sep cs of [] \<Rightarrow> [[c]] | w # ws \<Rightarrow> (c # w) # ws))"

text \<open>\<open>sep.join(ws)\<close>.\<close>

fun join_with :: "string \<Rightarrow> string list \<Rightarrow> string" where
  "join_with sep [] = []"
| "join_with sep [w] = w"
| "join_with sep (w # v # ws) = w @ sep @ join_with sep (v # ws)"

definition startswith :: "string \<Rightarrow> string \<Rightarrow> bool" where
  "startswith s p = (take (length p) s = p)"

definition endswith :: "string \<Rightarrow> string \<Rightarrow> bool" where
  "endswith s p = (length p \<le> length s \<and> drop (length s - length p) s = p)"

text \<open>\<open>s.lstrip(chars)\<close> and \<open>s.replace(a, b)\<close> for one-character \<open>a\<close> and \<open>b\<close>.\<close>

definition lstrip :: "string \<Rightarrow> string \<Rightarrow> string" where
  "lstrip s chars = dropWhile (\<lambda>c. c \<in> set chars) s"

definition replace_char :: "char \<Rightarrow> char \<Rightarrow> string \<Rightarrow> string" where
  "replace_char a b s = map (\<lambda>c. if c = a then b else c) s"

definition ascii_lowercase :: string where
  "ascii_lowercase = ''abcdefghijklmnopqrstuvwxyz''"

definition ascii_uppercase :: string where
  "ascii_uppercase = ''ABCDEFGHIJKLMNOPQRSTUVWXYZ''"

definition digits :: string where
  "digits = ''0123456789''"

definition to_lower :: "char \<Rightarrow> char" where
  "to_lower c = (case map_of (zip ascii_uppercase ascii_lowercase) c of Some l \<Rightarrow> l | None \<Rightarrow> c)"

definition to_upper :: "char \<Rightarrow> char" where
  "to_upper c = (case map_of (zip ascii_lowercase ascii_uppercase) c of Some u \<Rightarrow> u | None \<Rightarrow> c)"

definition is_cased :: "char \<Rightarrow> bool" where
  "is_cased c = (c \<in> set ascii_lowercase \<or> c \<in> set ascii_uppercase)"

definition lower :: "string \<Rightarrow> string" where
  "lower s = map to_lower s"

text \<open>
  \<open>s.title()\<close>: a character that follows a cased character is lowercased, any other
  character is titlecased.
\<close>

fun title_loop :: "bool \<Rightarrow> string \<Rightarrow> string" where
  "title_loop previous_is_cased [] = []"
| "title_loop previous_is_cased (c # cs) =
     (if previous_is_cased then to_lower c else to_upper c) # title_loop (is_cased c) cs"

definition title :: "string \<Rightarrow> string" where
  "title s = title_loop False s"

section \<open>The path functions of the standard library (POSIX)\<close>

text \<open>\<open>os.path.join(a, *p)\<close>.\<close>

definition join_step :: "string \<Rightarrow> string \<Rightarrow> string" where
  "join_step path b =
     (if startswith b ''/'' then b
      else if path = [] \<or> endswith path ''/'' then path @ b
      else path @ ''/'' @ b)"

definition os_path_join :: "string \<Rightarrow> string list \<Rightarrow> string" where
  "os_path_join a p = foldl join_step a p"

definition isabs :: "string \<Rightarrow> bool" where
  "isabs s = startswith s ''/''"

text \<open>\<open>os.path.normpath(path)\<close>; the loop appends to and pops from the end of \<open>new_comps\<close>.\<close>

fun normpath_loop :: "nat \<Rightarrow> string list \<Rightarrow> string list \<Rightarrow> string list" where
  "normpath_loop initial_slashes [] new_comps = new_comps"
| "normpath_loop initial_slashes (part # comps) new_comps =
     (if part = [] \<or> part = ''.'' then normpath_loop initial_slashes comps new_comps
      else if part \<noteq> ''..'' \<or> (initial_slashes = 0 \<and> new_comps = [])
                \<or> (new_comps \<noteq> [] \<and> last new_comps = ''..'')
        then normpath_loop initial_slashes comps (new_comps @ [part])
      else if new_comps \<noteq> [] then normpath_loop initial_slashes comps (butlast new_comps)
      else normpath_loop initial_slashes comps new_comps)"

definition normpath :: "string \<Rightarrow> string" where
  "normpath path =
     (if path = [] then ''.''
      else
        let initial_slashes =
              (if startswith path ''/''
               then (if startswith path ''//'' \<and> \<not> startswith path ''///'' then 2 else 1)
               else (0::nat));
            comps = normpath_loop initial_slashes (split_on CHR ''/'' path) [];
            joined = replicate initial_slashes CHR ''/'' @ join_with ''/'' comps
        in if joined = [] then ''.'' else joined)"

text \<open>\<open>os.path.abspath(path)\<close>, with the working directory as a parameter.\<close>

definition abspath :: "string \<Rightarrow> string \<Rightarrow> string" where
  "abspath cwd path = normpath (if isabs path then path else os_path_join cwd [path])"

text \<open>
  The loop shared by \<open>os.path.commonpath\<close> and \<open>os.path.commonprefix\<close>:
  \<^verbatim>\<open>for i, c in enumerate(s1): if c != s2[i]: return s1[:i]\<close>, then \<open>s1\<close>.
  Indexing \<open>s2\<close> beyond its end raises.
\<close>

fun common_loop :: "string list \<Rightarrow> string list \<Rightarrow> py_exc + string list" where
  "common_loop [] s2 = Inr []"
| "common_loop (c # s1) [] = Inl IndexError"
| "common_loop (c # s1) (d # s2) =
     (if c \<noteq> d then Inr []
      else (case common_loop s1 s2 of Inl e \<Rightarrow> Inl e | Inr pre \<Rightarrow> Inr (c # pre)))"

definition path_parts :: "string \<Rightarrow> string list" where
  "path_parts p = filter (\<lambda>c. c \<noteq> [] \<and> c \<noteq> ''.'') (split_on CHR ''/'' p)"

fun commonpath :: "string list \<Rightarrow> py_exc + string" where
  "commonpath [] = Inl ValueError"
| "commonpath (p # ps) =
     (if \<not> list_all (\<lambda>q. (take 1 q = ''/'') = (take 1 p = ''/'')) ps then Inl ValueError
      else
        let split_paths = map path_parts (p # ps);
            s1 = fold min (tl split_paths) (hd split_paths);
            s2 = fold max (tl split_paths) (hd split_paths)
        in (case common_loop s1 s2 of
              Inl e \<Rightarrow> Inl e
            | Inr common \<Rightarrow>
                Inr ((if take 1 p = ''/'' then ''/'' else []) @ join_with ''/'' common)))"

text \<open>
  \<open>os.path.relpath(path, start)\<close>: \<open>relpath_of\<close> is the body after the test
  \<open>if not path\<close>, which a \<open>Path\<close> object always passes.
\<close>

definition relpath_of :: "string \<Rightarrow> string \<Rightarrow> string \<Rightarrow> py_exc + string" where
  "relpath_of cwd path start =
     (let start_list = filter (\<lambda>x. x \<noteq> []) (split_on CHR ''/'' (abspath cwd start));
          path_list = filter (\<lambda>x. x \<noteq> []) (split_on CHR ''/'' (abspath cwd path))
      in (case common_loop (min start_list path_list) (max start_list path_list) of
            Inl e \<Rightarrow> Inl e
          | Inr pre \<Rightarrow>
              let i = length pre;
                  rel_list = replicate (length start_list - i) ''..'' @ drop i path_list
              in Inr (if rel_list = [] then ''.'' else os_path_join (hd rel_list) (tl rel_list))))"

definition relpath :: "string \<Rightarrow> string \<Rightarrow> string \<Rightarrow> py_exc + string" where
  "relpath cwd path start = (if path = [] then Inl ValueError else relpath_of cwd path start)"

text \<open>\<open>os.path.basename(p)\<close>: what follows the last separator.\<close>

definition basename :: "string \<Rightarrow> string" where
  "basename p = rev (takeWhile (\<lambda>c. c \<noteq> CHR ''/'') (rev p))"

section \<open>URL parsing and quoting\<close>

text \<open>
  \<open>urllib.parse.urlparse(url).path\<close>. The url loses its leading control characters and
  spaces and every tab, carriage return and line feed; then a scheme, a network location
  after \<open>//\<close>, the fragment, the query and the parameters of the last segment are cut
  off. Nothing is percent-decoded. The two checks of the network location that need the
  address parser and Unicode normalisation (\<open>_check_bracketed_host\<close>, \<open>_checknetloc\<close>)
  are the parameter \<open>netloc_ok\<close>; a failed check raises \<open>ValueError\<close>.
\<close>

definition scheme_chars :: string where
  "scheme_chars = ascii_lowercase @ ascii_uppercase @ digits @ ''+-.''"

definition uses_params :: "string list" where
  "uses_params = ['''', ''ftp'', ''hdl'', ''prospero'', ''http'', ''imap'', ''https'', ''shttp'',
     ''rtsp'', ''rtsps'', ''rtspu'', ''sip'', ''sips'', ''mms'', ''sftp'', ''tel'']"

definition before :: "char \<Rightarrow> string \<Rightarrow> string" where
  "before c s = takeWhile (\<lambda>x. x \<noteq> c) s"

definition split_scheme :: "string \<Rightarrow> string \<times> string" where
  "split_scheme url =
     (let head = before CHR '':'' url
      in if CHR '':'' \<in> set url \<and> head \<noteq> [] \<and> is_cased (hd url)
            \<and> list_all (\<lambda>c. c \<in> set scheme_chars) head
         then (lower head, drop (length head + 1) url)
         else ('''', url))"

definition splitnetloc :: "string \<Rightarrow> string \<times> string" where
  "splitnetloc url =
     (let netloc = takeWhile (\<lambda>c. c \<notin> set ''/?#'') (drop 2 url)
      in (netloc, drop (2 + length netloc) url))"

definition splitparams :: "string \<Rightarrow> string" where
  "splitparams url =
     (if CHR ''/'' \<in> set url
      then (let tail = basename url; head = take (length url - length tail) url
            in if CHR '';'' \<in> set tail then head @ before CHR '';'' tail else url)
      else before CHR '';'' url)"

definition urlparse_path :: "(string \<Rightarrow> bool) \<Rightarrow> string \<Rightarrow> py_exc + string" where
  "urlparse_path netloc_ok url0 =
     (let url1 = dropWhile (\<lambda>c. of_char c \<le> (32::nat)) url0;
          url2 = filter (\<lambda>c. of_char c \<notin> {9, 10, 13::nat}) url1;
          (scheme, url3) = split_scheme url2;
          (netloc, url4) = (if take 2 url3 = ''//'' then splitnetloc url3 else ('''', url3))
      in if (CHR ''['' \<in> set netloc) \<noteq> (CHR '']'' \<in> set netloc) \<or> \<not> netloc_ok netloc
         then Inl ValueError
         else
           let url5 = before CHR ''?'' (before CHR ''#'' url4)
           in Inr (if scheme \<in> set uses_params \<and> CHR '';'' \<in> set url5
                   then splitparams url5 else url5))"

text \<open>
  \<open>urllib.parse.quote(s)\<close> with the default \<open>safe='/'\<close>: every byte of the UTF-8
  encoding outside the safe set becomes \<open>%XX\<close>.
\<close>

definition always_safe :: string where
  "always_safe = ascii_uppercase @ ascii_lowercase @ digits @ ''_.-~''"

definition hexdigit :: "nat \<Rightarrow> char" where
  "hexdigit n = ''0123456789ABCDEF'' ! (n mod 16)"

definition quote_byte :: "char \<Rightarrow> string" where
  "quote_byte c =
     (if c \<in> set (always_safe @ ''/'') then [c]
      else [CHR ''%'', hexdigit (of_char c div 16), hexdigit (of_char c mod 16)])"

definition quote :: "string \<Rightarrow> string" where
  "quote s = concat (map quote_byte s)"

section \<open>Reading files\<close>

text \<open>The strict UTF-8 decoder accepts exactly the well-formed byte sequences.\<close>

definition cont :: "nat \<Rightarrow> bool" where
  "cont b = (128 \<le> b \<and> b \<le> 191)"

fun utf8_ok :: "nat list \<Rightarrow> bool" where
  "utf8_ok [] = True"
| "utf8_ok (b # bs) =
     (if b < 128 then utf8_ok bs
      else if 194 \<le> b \<and> b \<le> 223 then
        (case bs of c1 # r \<Rightarrow> cont c1 \<and> utf8_ok r | _ \<Rightarrow> False)
      else if 224 \<le> b \<and> b \<le> 239 then
        (case bs of c1 # c2 # r \<Rightarrow>
           cont c1 \<and> cont c2 \<and> (b = 224 \<longrightarrow> 160 \<le> c1) \<and> (b = 237 \<longrightarrow> c1 \<le> 159) \<and> utf8_ok r
         | _ \<Rightarrow> False)
      else if 240 \<le> b \<and> b \<le> 244 then
        (case bs of c1 # c2 # c3 # r \<Rightarrow>
           cont c1 \<and> cont c2 \<and> cont c3 \<and> (b = 240 \<longrightarrow> 144 \<le> c1) \<and> (b = 244 \<longrightarrow> c1 \<le> 143)
             \<and> utf8_ok r
         | _ \<Rightarrow> False)
      else False)"

definition utf8_valid :: "string \<Rightarrow> bool" where
  "utf8_valid s = utf8_ok (map of_char s)"

text \<open>Text mode reads \<open>\r\n\<close> and a lone \<open>\r\<close> as \<open>\n\<close>.\<close>

fun universal_newlines :: "string \<Rightarrow> string" where
  "universal_newlines [] = []"
| "universal_newlines (c # cs) =
     (if c = CHR 0x0D then
        CHR 0x0A # (case cs of d # ds \<Rightarrow> if d = CHR 0x0A then universal_newlines ds
                                        else universal_newlines cs
                    | [] \<Rightarrow> [])
      else c # universal_newlines cs)"

section \<open>The world outside the handler\<close>

text \<open>
  What the operating system answers, as functions of the path string it is given:
  \<open>os_stat\<close> is the outcome of \<open>os.stat\<close> (symbolic links followed), \<open>os_read\<close> of
  opening a file and reading all its bytes, \<open>os_listdir\<close> of \<open>os.listdir\<close>. A failed
  \<open>stat\<close> is \<open>StatMissing\<close> when \<open>pathlib\<close> ignores the error (no such entry, dangling
  link, not a directory) and \<open>StatFails\<close> otherwise (permission denied); \<open>os.path.isfile\<close>
  and \<open>os.path.isdir\<close> take both for "no". \<open>markdown_lib\<close> is \<open>None\<close> when
  \<open>import markdown\<close> raises \<open>ImportError\<close>, else the function
  \<open>markdown.markdown(_, extensions=["codehilite", "fenced_code"])\<close>.
\<close>

datatype stat_result = StatReg | StatDir | StatOther | StatMissing | StatFails

record world =
  getcwd :: string
  os_stat :: "string \<Rightarrow> stat_result"
  os_read :: "string \<Rightarrow> py_exc + string"
  os_listdir :: "string \<Rightarrow> py_exc + string list"
  markdown_lib :: "(string \<Rightarrow> string) option"
  netloc_ok :: "string \<Rightarrow> bool"

definition isfile :: "world \<Rightarrow> string \<Rightarrow> bool" where
  "isfile w p = (os_stat w p = StatReg)"

definition isdir :: "world \<Rightarrow> string \<Rightarrow> bool" where
  "isdir w p = (os_stat w p = StatDir)"

text \<open>\<open>open(p, "r", encoding="utf-8").read()\<close>.\<close>

definition read_text :: "world \<Rightarrow> string \<Rightarrow> py_exc + string" where
  "read_text w p =
     (case os_read w p of
        Inl e \<Rightarrow> Inl e
      | Inr data \<Rightarrow> if utf8_valid data then Inr (universal_newlines data)
                    else Inl UnicodeDecodeError)"

subsection \<open>pathlib\<close>

text \<open>
  A \<open>Path\<close> is its root (\<open>''''\<close>, \<open>/\<close> or \<open>//\<close>) and its parts after the root.
  \<open>Path(a, b)\<close> parses the segments from the last one backwards and stops at a rooted one.
\<close>

type_synonym pure_path = "string \<times> string list"

definition splitroot :: "string \<Rightarrow> string \<times> string" where
  "splitroot part =
     (if startswith part ''/''
      then (let stripped_part = lstrip part ''/''
            in (if length part - length stripped_part = 2 then ''//'' else ''/'', stripped_part))
      else ('''', part))"

definition Path2 :: "string \<Rightarrow> string \<Rightarrow> pure_path" where
  "Path2 a b =
     (let (rootb, relb) = splitroot b; (roota, rela) = splitroot a
      in if rootb \<noteq> [] then (rootb, path_parts relb)
         else (roota, path_parts rela @ path_parts relb))"

definition path_str :: "pure_path \<Rightarrow> string" where
  "path_str p =
     (let s = fst p @ join_with ''/'' (snd p) in if s = [] then ''.'' else s)"

definition path_name :: "pure_path \<Rightarrow> string" where
  "path_name p = (if snd p = [] then [] else last (snd p))"

text \<open>\<open>Path.suffix\<close>: from the last dot of the name, unless that dot is first or last.\<close>

definition path_suffix :: "pure_path \<Rightarrow> string" where
  "path_suffix p =
     (let name = path_name p; ext = rev (takeWhile (\<lambda>c. c \<noteq> CHR ''.'') (rev name))
      in if CHR ''.'' \<in> set name \<and> ext \<noteq> [] \<and> length ext + 1 < length name
         then CHR ''.'' # ext else [])"

definition path_is_file :: "world \<Rightarrow> pure_path \<Rightarrow> py_exc + bool" where
  "path_is_file w p =
     (case os_stat w (path_str p) of StatFails \<Rightarrow> Inl OSError | r \<Rightarrow> Inr (r = StatReg))"

definition path_is_dir :: "world \<Rightarrow> pure_path \<Rightarrow> py_exc + bool" where
  "path_is_dir w p =
     (case os_stat w (path_str p) of StatFails \<Rightarrow> Inl OSError | r \<Rightarrow> Inr (r = StatDir))"

section \<open>Responses\<close>

text \<open>
  \<open>Sent status headers body\<close> is a response the handler writes itself, with the headers
  it adds by \<open>send_header\<close>; \<open>SendError code\<close> is the error page of \<open>send_error(code)\<close>;
  \<open>Unhandled e\<close> is an exception that leaves \<open>do_GET\<close>: the server logs it and closes the
  connection, and the client receives no status line.
\<close>

datatype response =
    Sent nat "(string \<times> string) list" string
  | SendError nat
  | Unhandled py_exc

fun status :: "response \<Rightarrow> nat option" where
  "status (Sent code hs b) = Some code"
| "status (SendError code) = Some code"
| "status (Unhandled e) = None"

fun header :: "string \<Rightarrow> response \<Rightarrow> string option" where
  "header k (Sent code hs b) = map_of hs k"
| "header k r = None"

fun body :: "response \<Rightarrow> string option" where
  "body (Sent code hs b) = Some b"
| "body r = None"

text \<open>\<open>str(n)\<close> for a length.\<close>

fun str_nat :: "nat \<Rightarrow> string" where
  "str_nat n = (if n < 10 then [digits ! n] else str_nat (n div 10) @ [digits ! (n mod 10)])"

section \<open>The request handler\<close>

text \<open>\<open>DirectoryHandler\<close>: the object holds \<open>base_dir\<close>; \<open>ICONS\<close> is a class constant.\<close>

record handler =
  base_dir :: string

definition icon_memo :: string where
  "icon_memo = [CHR 0xF0, CHR 0x9F, CHR 0x93, CHR 0x9D]"

definition icon_folder :: string where
  "icon_folder = [CHR 0xF0, CHR 0x9F, CHR 0x93, CHR 0x81]"

definition icon_page :: string where
  "icon_page = [CHR 0xF0, CHR 0x9F, CHR 0x93, CHR 0x84]"

definition icon_book :: string where
  "icon_book = [CHR 0xF0, CHR 0x9F, CHR 0x93, CHR 0x98]"

definition icon_open_folder :: string where
  "icon_open_folder = [CHR 0xF0, CHR 0x9F, CHR 0x93, CHR 0x82]"

definition left_arrow :: string where
  "left_arrow = [CHR 0xE2, CHR 0x86, CHR 0x90]"

definition nl :: string where
  "nl = [CHR 0x0A]"

definition ICONS :: "string \<Rightarrow> string option" where
  "ICONS = [''.md'' \<mapsto> icon_memo]"

subsection \<open>Helpers\<close>

definition pretty :: "string \<Rightarrow> string" where
  "pretty name = title (replace_char CHR ''_'' CHR '' '' (replace_char CHR ''-'' CHR '' '' name))"

definition icon_for :: "world \<Rightarrow> pure_path \<Rightarrow> py_exc + string" where
  "icon_for w path =
     (case path_is_dir w path of
        Inl e \<Rightarrow> Inl e
      | Inr d \<Rightarrow>
          Inr (if d then icon_folder
               else (case ICONS (lower (path_suffix path)) of Some i \<Rightarrow> i | None \<Rightarrow> icon_page)))"

subsection \<open>Markdown and file serving\<close>

definition page_open :: string where
  \<open>page_open = ''<!DOCTYPE html>'' @ nl @ ''<html>'' @ nl @ ''<head><meta charset="utf-8">''\<close>

definition title_open :: string where
  "title_open = ''<title>MD Viewer - ''"

definition title_close :: string where
  "title_close = ''</title>''"

definition markdown_style :: string where
  \<open>markdown_style = nl @ ''<style>'' @ nl
     @ '' body{font-family:-apple-system,BlinkMacSystemFont,'Segoe UI',sans-serif;max-width:800px;margin:40px auto;padding:0 20px}'' @ nl
     @ '' .nav{margin-bottom:20px;padding-bottom:10px;border-bottom:1px solid #eee}'' @ nl
     @ '' .nav a{color:#06c;text-decoration:none}'' @ nl
     @ '' pre{background:#f5f5f5;padding:10px;border-radius:4px;overflow-x:auto}'' @ nl
     @ '' code{background:#f5f5f5;padding:2px 4px;border-radius:2px}'' @ nl
     @ '' blockquote{border-left:4px solid #ddd;margin:0;padding-left:20px;color:#666}'' @ nl
     @ ''</style></head>'' @ nl @ ''<body>'' @ nl
     @ '' <h1>'' @ icon_book @ '' MD Viewer</h1>'' @ nl\<close>

definition back_link :: string where
  \<open>back_link = ''<a href="/">''\<close>

definition page_close :: string where
  "page_close = nl @ ''</body></html>''"

definition markdown_page :: "string \<Rightarrow> string \<Rightarrow> string" where
  \<open>markdown_page title_text body_html =
     page_open @ title_open @ title_text @ title_close @ markdown_style
     @ '' <div class="nav">'' @ back_link @ left_arrow @ '' Back to directory</a></div>'' @ nl
     @ '' '' @ body_html @ page_close\<close>

definition plain_text_fallback :: "world \<Rightarrow> string \<Rightarrow> response" where
  "plain_text_fallback w file_path =
     (case read_text w file_path of
        Inl e \<Rightarrow> Unhandled e
      | Inr content \<Rightarrow> Sent 200 [(''Content-type'', ''text/plain; charset=utf-8'')] content)"

text \<open>
  \<open>serve_markdown\<close>: only \<open>ImportError\<close> is caught; any other exception of the
  \<open>try\<close> block, and any exception of the fallback, leaves the method.
\<close>

definition serve_markdown :: "world \<Rightarrow> handler \<Rightarrow> string \<Rightarrow> response" where
  "serve_markdown w self file_path =
     (case markdown_lib w of
        None \<Rightarrow> plain_text_fallback w file_path
      | Some markdown \<Rightarrow>
          (case read_text w file_path of
             Inl e \<Rightarrow> if e = ImportError then plain_text_fallback w file_path else Unhandled e
           | Inr md \<Rightarrow>
               Sent 200 [(''Content-type'', ''text/html'')]
                 (markdown_page (pretty (basename file_path)) (markdown md))))"

definition serve_file :: "world \<Rightarrow> string \<Rightarrow> response" where
  "serve_file w file_path =
     (case os_read w file_path of
        Inl e \<Rightarrow> SendError 500
      | Inr data \<Rightarrow> Sent 200 [(''Content-Length'', str_nat (length data))] data)"

subsection \<open>Directory listing\<close>

text \<open>
  One turn of the loop over the sorted names: \<open>Inr None\<close> is \<open>continue\<close>,
  \<open>Inr (Some row)\<close> the row appended, \<open>Inl e\<close> an exception.
\<close>

definition listing_row :: "world \<Rightarrow> handler \<Rightarrow> string \<Rightarrow> string \<Rightarrow> py_exc + string option" where
  \<open>listing_row w self dir_path item =
     (if startswith item ''.'' then Inr None
      else
        let item_path = Path2 dir_path item
        in (case path_is_file w item_path of
              Inl e \<Rightarrow> Inl e
            | Inr f \<Rightarrow>
                if f \<and> lower (path_suffix item_path) \<noteq> ''.md'' then Inr None
                else
                  (case relpath_of (getcwd w) (path_str item_path) (base_dir self) of
                     Inl e \<Rightarrow> Inl e
                   | Inr r \<Rightarrow>
                       (case icon_for w item_path of
                          Inl e \<Rightarrow> Inl e
                        | Inr icon \<Rightarrow>
                            (case path_is_dir w item_path of
                               Inl e \<Rightarrow> Inl e
                             | Inr d \<Rightarrow>
                                 Inr (Some (''<li>'' @ icon @ '' <a href="/'' @ quote r @ ''">''
                                            @ pretty item @ (if d then ''/'' else [])
                                            @ ''</a></li>'')))))))\<close>

fun listing_rows :: "world \<Rightarrow> handler \<Rightarrow> string \<Rightarrow> string list \<Rightarrow> py_exc + string list" where
  "listing_rows w self dir_path [] = Inr []"
| "listing_rows w self dir_path (item # items) =
     (case listing_row w self dir_path item of
        Inl e \<Rightarrow> Inl e
      | Inr r \<Rightarrow>
          (case listing_rows w self dir_path items of
             Inl e \<Rightarrow> Inl e
           | Inr rows \<Rightarrow> Inr (case r of None \<Rightarrow> rows | Some row \<Rightarrow> row # rows)))"

definition listing_style :: string where
  \<open>listing_style = nl @ ''<style>'' @ nl
     @ '' body{font-family:-apple-system,BlinkMacSystemFont,'Segoe UI',sans-serif;margin:40px}'' @ nl
     @ '' ul{list-style:none;padding:0}'' @ nl
     @ '' li{padding:8px 0;border-bottom:1px solid #f5f5f5}'' @ nl
     @ '' a{text-decoration:none;color:#333}'' @ nl
     @ '' a:hover{text-decoration:underline}'' @ nl
     @ ''</style></head>'' @ nl @ ''<body>'' @ nl
     @ '' <h1>'' @ icon_book @ '' MD Viewer</h1>'' @ nl\<close>

definition listing_page :: "string \<Rightarrow> string list \<Rightarrow> string" where
  "listing_page title_text rows =
     page_open @ title_open @ title_text @ title_close @ listing_style
     @ '' <h2>'' @ icon_open_folder @ '' '' @ title_text @ ''</h2>'' @ nl
     @ '' <ul>'' @ concat rows @ ''</ul>'' @ page_close"

text \<open>\<open>serve_directory\<close>: every exception of the \<open>try\<close> block becomes \<open>send_error(500)\<close>.\<close>

definition serve_directory :: "world \<Rightarrow> handler \<Rightarrow> string \<Rightarrow> response" where
  "serve_directory w self dir_path =
     (case os_listdir w dir_path of
        Inl e \<Rightarrow> SendError 500
      | Inr names \<Rightarrow>
          (case listing_rows w self dir_path (sort names) of
             Inl e \<Rightarrow> SendError 500
           | Inr rows \<Rightarrow>
               (case relpath (getcwd w) dir_path (base_dir self) of
                  Inl e \<Rightarrow> SendError 500
                | Inr current \<Rightarrow>
                    Sent 200 [(''Content-type'', ''text/html'')]
                      (listing_page (pretty (if current = ''.'' then ''.'' else current)) rows))))"

subsection \<open>Routing\<close>

text \<open>\<open>os.path.join(self.base_dir, parsed.path.lstrip("/"))\<close> for a parsed path.\<close>

definition request_file_path :: "handler \<Rightarrow> string \<Rightarrow> string" where
  "request_file_path self parsed_path = os_path_join (base_dir self) [lstrip parsed_path ''/'']"

definition dispatch :: "world \<Rightarrow> handler \<Rightarrow> string \<Rightarrow> response" where
  "dispatch w self file_path =
     (case commonpath [base_dir self, abspath (getcwd w) file_path] of
        Inl e \<Rightarrow> Unhandled e
      | Inr common \<Rightarrow>
          if \<not> common = base_dir self then SendError 403
          else if isfile w file_path then
            (if endswith file_path ''.md'' then serve_markdown w self file_path
             else serve_file w file_path)
          else if isdir w file_path then serve_directory w self file_path
          else SendError 404)"

definition do_GET :: "world \<Rightarrow> handler \<Rightarrow> string \<Rightarrow> response" where
  "do_GET w self path =
     (case urlparse_path (netloc_ok w) path of
        Inl e \<Rightarrow> Unhandled e
      | Inr parsed_path \<Rightarrow> dispatch w self (request_file_path self parsed_path))"

section \<open>A sample file system\<close>

text \<open>
  A small tree without symbolic links, used to run the handler on concrete requests.
  A path is resolved from the root directory component by component; \<open>..\<close> goes to the
  parent, and every component that is passed through must be a directory.
\<close>

datatype node = NFile "py_exc + string" | NDir "py_exc + string list" | NOther

type_synonym tree = "(string list \<times> node) list"

fun is_ndir :: "node option \<Rightarrow> bool" where
  "is_ndir (Some (NDir l)) = True"
| "is_ndir n = False"

fun walk :: "tree \<Rightarrow> string list \<Rightarrow> string list \<Rightarrow> string list option" where
  "walk t cur [] = Some cur"
| "walk t cur (c # cs) =
     (if \<not> is_ndir (map_of t cur) then None
      else walk t (if c = ''..'' then butlast cur else cur @ [c]) cs)"

definition resolve :: "tree \<Rightarrow> string \<Rightarrow> node option" where
  "resolve t p =
     (if \<not> isabs p then None
      else (case walk t [] (path_parts p) of
              None \<Rightarrow> None
            | Some cur \<Rightarrow>
                if endswith p ''/'' \<and> \<not> is_ndir (map_of t cur) then None else map_of t cur))"

definition tree_stat :: "tree \<Rightarrow> string \<Rightarrow> stat_result" where
  "tree_stat t p =
     (case resolve t p of
        None \<Rightarrow> StatMissing
      | Some (NFile r) \<Rightarrow> StatReg
      | Some (NDir l) \<Rightarrow> StatDir
      | Some NOther \<Rightarrow> StatOther)"

definition tree_read :: "tree \<Rightarrow> string \<Rightarrow> py_exc + string" where
  "tree_read t p = (case resolve t p of Some (NFile r) \<Rightarrow> r | _ \<Rightarrow> Inl OSError)"

definition tree_listdir :: "tree \<Rightarrow> string \<Rightarrow> py_exc + string list" where
  "tree_listdir t p = (case resolve t p of Some (NDir l) \<Rightarrow> l | _ \<Rightarrow> Inl OSError)"

text \<open>
  \<open>/srv/docs\<close> is the served directory. \<open>bad.md\<close> holds a byte that is not UTF-8,
  \<open>locked.txt\<close> and \<open>locked.md\<close> cannot be opened, \<open>private\<close> cannot be listed,
  \<open>pipe\<close> is a FIFO.
\<close>

definition sample_tree :: tree where
  "sample_tree =
    [([], NDir (Inr [''etc'', ''srv''])),
     ([''etc''], NDir (Inr [''passwd''])),
     ([''etc'', ''passwd''], NFile (Inr ''root:x:0:0'')),
     ([''srv''], NDir (Inr [''docs''])),
     ([''srv'', ''docs''],
        NDir (Inr [''sub'', ''my-notes.md'', ''NOTES.MD'', ''my notes.md'', ''data.bin'',
                   ''.draft.MD'', ''pipe'', ''bad.md'', ''locked.txt'', ''locked.md'',
                   ''private''])),
     ([''srv'', ''docs'', ''sub''], NDir (Inr [''b.md'', ''a.md'', ''.git'', ''c.txt''])),
     ([''srv'', ''docs'', ''sub'', ''a.md''], NFile (Inr ''A'')),
     ([''srv'', ''docs'', ''sub'', ''b.md''], NFile (Inr ''B'')),
     ([''srv'', ''docs'', ''sub'', ''c.txt''], NFile (Inr ''C'')),
     ([''srv'', ''docs'', ''sub'', ''.git''], NDir (Inr [])),
     ([''srv'', ''docs'', ''my-notes.md''], NFile (Inr (''# Hi'' @ [CHR 0x0D, CHR 0x0A]))),
     ([''srv'', ''docs'', ''NOTES.MD''], NFile (Inr ''# NOTES'')),
     ([''srv'', ''docs'', ''my notes.md''], NFile (Inr ''# spaced'')),
     ([''srv'', ''docs'', ''data.bin''], NFile (Inr [CHR 0x00, CHR 0xFF, CHR 0x0D, CHR 0x0A])),
     ([''srv'', ''docs'', ''.draft.MD''], NFile (Inr ''draft'')),
     ([''srv'', ''docs'', ''pipe''], NOther),
     ([''srv'', ''docs'', ''bad.md''], NFile (Inr [CHR 0xFF])),
     ([''srv'', ''docs'', ''locked.txt''], NFile (Inl OSError)),
     ([''srv'', ''docs'', ''locked.md''], NFile (Inl OSError)),
     ([''srv'', ''docs'', ''private''], NDir (Inl OSError))]"

text \<open>A stand-in for the Markdown library: it wraps the text in one paragraph.\<close>

definition sample_markdown :: "string \<Rightarrow> string" where
  "sample_markdown md = ''<p>'' @ md @ ''</p>''"

definition sample_world :: world where
  "sample_world =
     \<lparr> getcwd = ''/srv/docs'',
       os_stat = tree_stat sample_tree,
       os_read = tree_read sample_tree,
       os_listdir = tree_listdir sample_tree,
       markdown_lib = Some sample_markdown,
       netloc_ok = (\<lambda>n. True) \<rparr>"

definition sample_handler :: handler where
  "sample_handler = \<lparr> base_dir = ''/srv/docs'' \<rparr>"

section \<open>Containment\<close>

text \<open>
  A path lies in a root directory when the components of the root are the first
  components of the path: the path is the root or a descendant of it.
\<close>

definition path_within :: "string \<Rightarrow> string \<Rightarrow> bool" where
  "path_within root p = prefix (path_parts root) (path_parts p)"

text \<open>A root written in canonical form: one leading separator, no empty or dot component.\<close>

definition canonical_root :: "string \<Rightarrow> bool" where
  "canonical_root root = (root = ''/'' @ join_with ''/'' (path_parts root))"

section \<open>The listing as the specification words it\<close>

text \<open>
  The entries a listing is said to show: the names without a leading dot that are
  directories, or regular files whose name ends in \<open>.md\<close> in any letter case.
\<close>

definition spec_listed :: "world \<Rightarrow> string \<Rightarrow> string \<Rightarrow> bool" where
  "spec_listed w dir_path name =
     (\<not> startswith name ''.''
      \<and> (os_stat w (path_str (Path2 dir_path name)) = StatDir
         \<or> (os_stat w (path_str (Path2 dir_path name)) = StatReg
            \<and> endswith (lower name) ''.md'')))"

text \<open>
  The list item of a shown entry: the folder icon and a trailing separator for a
  directory, the Markdown icon for a file, the prettified name as the label, and a link
  to the quoted path of the entry relative to the root directory.
\<close>

definition spec_entry :: "world \<Rightarrow> handler \<Rightarrow> string \<Rightarrow> string \<Rightarrow> string" where
  \<open>spec_entry w self dir_path name =
     (let is_directory = (os_stat w (path_str (Path2 dir_path name)) = StatDir);
          rel = (case relpath_of (getcwd w) (path_str (Path2 dir_path name)) (base_dir self) of
                   Inr r \<Rightarrow> r | Inl e \<Rightarrow> [])
      in ''<li>'' @ (if is_directory then icon_folder else icon_memo)
         @ '' <a href="/'' @ quote rel @ ''">'' @ pretty name
         @ (if is_directory then ''/'' else []) @ ''</a></li>'')\<close>

section \<open>Properties of the path functions\<close>

lemma split_on_not_Nil: "split_on sep s \<noteq> []"
  by (induction s) (auto split: list.splits)

lemma split_on_no_sep: "w \<in> set (split_on sep s) \<Longrightarrow> sep \<notin> set w"
  by (induction s arbitrary: w) (auto split: list.splits if_splits)

lemma split_on_plain: "sep \<notin> set w \<Longrightarrow> split_on sep w = [w]"
  by (induction w) auto

lemma split_on_append: "sep \<notin> set w \<Longrightarrow> split_on sep (w @ sep # rest) = w # split_on sep rest"
  by (induction w) (auto simp: split_on_not_Nil split: list.splits)

lemma split_on_join:
  "ws \<noteq> [] \<Longrightarrow> \<forall>w\<in>set ws. sep \<notin> set w \<Longrightarrow> split_on sep (join_with [sep] ws) = ws"
  by (induction "[sep]" ws rule: join_with.induct) (auto simp: split_on_plain split_on_append)

lemma path_parts_elem:
  "w \<in> set (path_parts p) \<Longrightarrow> w \<noteq> [] \<and> w \<noteq> ''.'' \<and> CHR ''/'' \<notin> set w"
  by (auto simp: path_parts_def dest: split_on_no_sep)

lemma path_parts_join:
  assumes "\<forall>w\<in>set ws. w \<noteq> [] \<and> w \<noteq> ''.'' \<and> CHR ''/'' \<notin> set w"
  shows "path_parts (''/'' @ join_with ''/'' ws) = ws"
proof (cases "ws = []")
  case True
  then show ?thesis by (simp add: path_parts_def)
next
  case False
  with assms have "split_on CHR ''/'' (join_with ''/'' ws) = ws"
    by (simp add: split_on_join)
  with assms show ?thesis
    by (simp add: path_parts_def filter_id_conv)
qed

lemma common_loop_prefix: "common_loop a b = Inr c \<Longrightarrow> prefix c a \<and> prefix c b"
  by (induction a b arbitrary: c rule: common_loop.induct) (auto split: if_splits sum.splits)

lemma common_loop_le: "a \<le> b \<Longrightarrow> \<exists>c. common_loop a b = Inr c"
  by (induction a b rule: common_loop.induct) (auto split: sum.splits)

lemma common_loop_of_prefix: "prefix a b \<Longrightarrow> common_loop a b = Inr a"
  by (induction a b rule: common_loop.induct) auto

lemma prefix_le: "prefix a (b :: string list) \<Longrightarrow> a \<le> b"
proof (induction a arbitrary: b)
  case Nil
  then show ?case by simp
next
  case (Cons x a)
  then show ?case by (cases b) auto
qed

lemma common_loop_min_max:
  "\<exists>c. common_loop (min a b) (max a b) = Inr c \<and> prefix c a \<and> prefix c b
       \<and> (prefix b a \<longrightarrow> c = b)"
proof -
  have "min a b \<le> max a b" by (simp add: min_le_iff_disj le_max_iff_disj)
  then obtain c where c: "common_loop (min a b) (max a b) = Inr c"
    using common_loop_le by blast
  then have p: "prefix c (min a b) \<and> prefix c (max a b)"
    by (rule common_loop_prefix)
  have "prefix c a \<and> prefix c b"
    using p by (cases "a \<le> b") (auto simp: min_def max_def)
  moreover have "c = b" if "prefix b a"
  proof -
    from that have "b \<le> a" by (rule prefix_le)
    then have "min a b = b" "max a b = a" by (auto simp: min_def max_def)
    with c common_loop_of_prefix[OF that] show ?thesis by simp
  qed
  ultimately show ?thesis using c by blast
qed

lemma commonpath_two:
  assumes "take 1 b = ''/''" and "take 1 q = ''/''"
  shows "\<exists>c. commonpath [b, q] = Inr (''/'' @ join_with ''/'' c)
           \<and> prefix c (path_parts b) \<and> prefix c (path_parts q)
           \<and> (prefix (path_parts b) (path_parts q) \<longrightarrow> c = path_parts b)"
proof -
  obtain c where c: "common_loop (min (path_parts q) (path_parts b)) (max (path_parts q) (path_parts b)) = Inr c"
    "prefix c (path_parts q)" "prefix c (path_parts b)"
    "prefix (path_parts b) (path_parts q) \<longrightarrow> c = path_parts b"
    using common_loop_min_max[of "path_parts q" "path_parts b"] by blast
  then show ?thesis using assms by (auto simp: Let_def)
qed

lemma commonpath_within:
  assumes "take 1 b = ''/''" and "take 1 q = ''/''" and "commonpath [b, q] = Inr b"
  shows "path_within b q"
proof -
  obtain c where c: "commonpath [b, q] = Inr (''/'' @ join_with ''/'' c)"
    "prefix c (path_parts b)" "prefix c (path_parts q)"
    using commonpath_two[OF assms(1,2)] by blast
  with assms(3) have b: "b = ''/'' @ join_with ''/'' c" by simp
  have "\<forall>w\<in>set c. w \<noteq> [] \<and> w \<noteq> ''.'' \<and> CHR ''/'' \<notin> set w"
    using c(2) path_parts_elem[of _ b] by (meson set_mono_prefix subsetD)
  then have "path_parts (''/'' @ join_with ''/'' c) = c" by (rule path_parts_join)
  with b have "path_parts b = c" by simp
  with c(3) show ?thesis by (simp add: path_within_def)
qed

lemma within_commonpath:
  assumes "canonical_root b" and "take 1 q = ''/''" and "path_within b q"
  shows "commonpath [b, q] = Inr b"
proof -
  from assms(1) have b1: "take 1 b = ''/''"
    by (metis canonical_root_def append_Cons append_Nil take_Suc_Cons take_0 One_nat_def)
  obtain c where c: "commonpath [b, q] = Inr (''/'' @ join_with ''/'' c)"
    "prefix (path_parts b) (path_parts q) \<longrightarrow> c = path_parts b"
    using commonpath_two[OF b1 assms(2)] by blast
  with assms(3) have "c = path_parts b" by (simp add: path_within_def)
  with c(1) assms(1) show ?thesis by (simp add: canonical_root_def)
qed

lemma normpath_abs: "isabs p \<Longrightarrow> take 1 (normpath p) = ''/''"
proof -
  assume "isabs p"
  then obtain r where p: "p = CHR ''/'' # r"
    by (cases p) (auto simp: isabs_def startswith_def)
  show ?thesis
    unfolding p normpath_def Let_def startswith_def
    apply (simp add: numeral_2_eq_2)
    done
qed

lemma request_file_path_abs: "isabs (base_dir self) \<Longrightarrow> isabs (request_file_path self parsed)"
  by (cases "base_dir self")
     (auto simp: request_file_path_def os_path_join_def join_step_def isabs_def startswith_def)

lemma abspath_abs: "isabs p \<Longrightarrow> take 1 (abspath cwd p) = ''/''"
  using normpath_abs[of p] by (simp add: abspath_def)


lemma isabs_take: "isabs p \<Longrightarrow> take 1 p = ''/''"
  by (simp add: isabs_def startswith_def)

text \<open>
  Claim C1. When the root directory is an absolute path, a request whose joined and
  normalised path is not the root or a descendant of it is answered with 403, and a
  request answered with 200 has a joined and normalised path that is the root or a
  descendant of it. The normalisation is that of \<open>os.path.abspath\<close>: it works on the
  text of the path and follows no symbolic link.
\<close>

theorem do_GET_confined:
  assumes "isabs (base_dir self)"
    and "urlparse_path (netloc_ok w) path = Inr parsed"
  shows "(\<not> path_within (base_dir self) (abspath (getcwd w) (request_file_path self parsed))
            \<longrightarrow> do_GET w self path = SendError 403)
       \<and> (status (do_GET w self path) = Some 200
            \<longrightarrow> path_within (base_dir self) (abspath (getcwd w) (request_file_path self parsed)))"
proof -
  let ?b = "base_dir self"
  let ?q = "abspath (getcwd w) (request_file_path self parsed)"
  have b: "take 1 ?b = ''/''" using assms(1) by (rule isabs_take)
  have q: "take 1 ?q = ''/''"
    using assms(1) by (intro abspath_abs request_file_path_abs)
  obtain c where c: "commonpath [?b, ?q] = Inr c"
    using commonpath_two[OF b q] by blast
  have run: "do_GET w self path = dispatch w self (request_file_path self parsed)"
    using assms(2) by (simp add: do_GET_def)
  show ?thesis
  proof (cases "c = ?b")
    case True
    with c have "path_within ?b ?q"
      using commonpath_within[OF b q] by simp
    then show ?thesis by simp
  next
    case False
    with c have "dispatch w self (request_file_path self parsed) = SendError 403"
      by (simp add: dispatch_def)
    with run show ?thesis by simp
  qed
qed

theorem do_GET_confined_witness:
  "do_GET sample_world sample_handler ''/../../etc/passwd'' = SendError 403
   \<and> status (do_GET sample_world sample_handler ''/data.bin'') = Some 200
   \<and> path_within ''/srv/docs'' ''/srv/docs/data.bin''"
proof -
  have h1: "isabs (base_dir sample_handler)" by code_simp
  have h2: "urlparse_path (netloc_ok sample_world) ''/../../etc/passwd'' = Inr ''/../../etc/passwd''"
    by code_simp
  have h3: "\<not> path_within (base_dir sample_handler)
              (abspath (getcwd sample_world) (request_file_path sample_handler ''/../../etc/passwd''))"
    by code_simp
  have h4: "urlparse_path (netloc_ok sample_world) ''/data.bin'' = Inr ''/data.bin''"
    by code_simp
  have h5: "status (do_GET sample_world sample_handler ''/data.bin'') = Some 200"
    by code_simp
  have h6: "abspath (getcwd sample_world) (request_file_path sample_handler ''/data.bin'') = ''/srv/docs/data.bin''"
    by code_simp
  have h7: "base_dir sample_handler = ''/srv/docs''" by code_simp
  show ?thesis
    using do_GET_confined[OF h1 h2] do_GET_confined[OF h1 h4] h3 h5 h6 h7 by simp
qed

section \<open>Properties of the listing and of the dispatch\<close>


lemma to_lower_dot: "to_lower c = CHR ''.'' \<longleftrightarrow> c = CHR ''.''"
  by (auto simp: to_lower_def ascii_uppercase_def ascii_lowercase_def split: if_splits)

lemma to_lower_m: "to_lower c = CHR ''m'' \<Longrightarrow> c \<noteq> CHR ''.''"
  by (auto simp: to_lower_def ascii_uppercase_def ascii_lowercase_def split: if_splits)

lemma to_lower_d: "to_lower c = CHR ''d'' \<Longrightarrow> c \<noteq> CHR ''.''"
  by (auto simp: to_lower_def ascii_uppercase_def ascii_lowercase_def split: if_splits)

lemma Path2_name:
  assumes "item \<noteq> []" and "CHR ''/'' \<notin> set item" and "item \<noteq> ''.''"
  shows "path_name (Path2 d item) = item"
proof -
  have "\<not> startswith item ''/''"
    using assms(1,2) by (cases item) (auto simp: startswith_def)
  then have r: "splitroot item = ('''', item)" by (simp add: splitroot_def)
  have p: "path_parts item = [item]"
    using assms by (simp add: path_parts_def split_on_plain)
  show ?thesis
    by (simp add: Path2_def r p path_name_def split: prod.splits)
qed

lemma suffix_of_name:
  assumes "name = stem @ CHR ''.'' # ext" and "CHR ''.'' \<notin> set ext"
  shows "rev (takeWhile (\<lambda>c. c \<noteq> CHR ''.'') (rev name)) = ext"
proof -
  have all: "\<forall>x\<in>set (rev ext). x \<noteq> CHR ''.''"
    using assms(2) by auto
  have "takeWhile (\<lambda>c. c \<noteq> CHR ''.'') (rev name) = takeWhile (\<lambda>c. c \<noteq> CHR ''.'') (rev ext)"
    using assms(1) by (simp add: takeWhile_tail)
  also have "\<dots> = rev ext"
    using all by (rule takeWhile_eq_all_conv[THEN iffD2])
  finally show ?thesis by simp
qed

lemma endswith_iff: "endswith s p \<longleftrightarrow> (\<exists>stem. s = stem @ p)"
proof
  assume "endswith s p"
  then have "s = take (length s - length p) s @ p"
    by (metis endswith_def append_take_drop_id)
  then show "\<exists>stem. s = stem @ p" ..
next
  assume "\<exists>stem. s = stem @ p"
  then show "endswith s p" by (auto simp: endswith_def)
qed

lemma lower_md_shape:
  "lower s = ''.md'' \<longleftrightarrow>
     (\<exists>c2 c3. s = [CHR ''.'', c2, c3] \<and> to_lower c2 = CHR ''m'' \<and> to_lower c3 = CHR ''d'')"
  by (auto simp: lower_def to_lower_dot map_eq_Cons_conv)

lemma suffix_md:
  assumes "item \<noteq> []" and "CHR ''/'' \<notin> set item" and "\<not> startswith item ''.''"
  shows "(lower (path_suffix (Path2 d item)) = ''.md'') = endswith (lower item) ''.md''"
proof -
  have nd: "item \<noteq> ''.''" using assms(3) by (auto simp: startswith_def)
  have name: "path_name (Path2 d item) = item"
    using assms(1,2) nd by (rule Path2_name)
  show ?thesis
  proof
    assume l: "lower (path_suffix (Path2 d item)) = ''.md''"
    then obtain c2 c3 where s: "path_suffix (Path2 d item) = [CHR ''.'', c2, c3]"
      and c: "to_lower c2 = CHR ''m''" "to_lower c3 = CHR ''d''"
      by (auto simp: lower_md_shape)
    let ?ext = "rev (takeWhile (\<lambda>c. c \<noteq> CHR ''.'') (rev item))"
    from s have e: "?ext = [c2, c3]"
      by (auto simp: path_suffix_def name Let_def split: if_splits)
    have "item = rev (dropWhile (\<lambda>c. c \<noteq> CHR ''.'') (rev item)) @ ?ext"
      by (metis rev_append rev_rev_ident takeWhile_dropWhile_id)
    moreover have "dropWhile (\<lambda>c. c \<noteq> CHR ''.'') (rev item) \<noteq> []"
      using s by (auto simp: path_suffix_def name Let_def split: if_splits)
    then obtain r where "dropWhile (\<lambda>c. c \<noteq> CHR ''.'') (rev item) = CHR ''.'' # r"
      using hd_dropWhile[of "\<lambda>c. c \<noteq> CHR ''.''" "rev item"]
      by (cases "dropWhile (\<lambda>c. c \<noteq> CHR ''.'') (rev item)") auto
    ultimately have "item = rev r @ [CHR ''.'', c2, c3]" using e by simp
    then have "lower item = lower (rev r) @ ''.md''"
      using c by (simp add: lower_def to_lower_dot)
    then show "endswith (lower item) ''.md''" by (auto simp: endswith_iff)
  next
    assume "endswith (lower item) ''.md''"
    then obtain ls where ls: "lower item = ls @ ''.md''" by (auto simp: endswith_iff)
    then have "length (lower item) = length (ls @ ''.md'')" by simp
    then have len: "length item = length ls + 3" by (simp add: lower_def)
    define stem where "stem = take (length ls) item"
    define t where "t = drop (length ls) item"
    have it: "item = stem @ t" "length stem = length ls" "length t = 3"
      using len by (simp_all add: stem_def t_def)
    then have "lower stem @ lower t = ls @ ''.md''" using ls by (simp add: lower_def)
    then have "lower t = ''.md''" using it(2) by (simp add: lower_def)
    then obtain c2 c3 where t: "t = [CHR ''.'', c2, c3]"
      and c: "to_lower c2 = CHR ''m''" "to_lower c3 = CHR ''d''"
      by (auto simp: lower_md_shape)
    have ne: "stem \<noteq> []"
      using assms(3) it(1) t by (auto simp: startswith_def)
    have nodot: "CHR ''.'' \<notin> set [c2, c3]"
      using c to_lower_m to_lower_d by auto
    have item: "item = stem @ CHR ''.'' # [c2, c3]" using it(1) t by simp
    have ext: "rev (takeWhile (\<lambda>c. c \<noteq> CHR ''.'') (rev item)) = [c2, c3]"
      using item nodot by (rule suffix_of_name)
    have "CHR ''.'' \<in> set item" "length [c2, c3] + 1 < length item"
      using ne by (simp_all add: item)
    then have "path_suffix (Path2 d item) = [CHR ''.'', c2, c3]"
      unfolding path_suffix_def name Let_def ext by simp
    then show "lower (path_suffix (Path2 d item)) = ''.md''"
      using c by (simp add: lower_md_shape)
  qed
qed

lemma relpath_of_total: "\<exists>rel. relpath_of cwd p s = Inr rel"
proof -
  let ?a = "filter (\<lambda>x. x \<noteq> []) (split_on CHR ''/'' (abspath cwd s))"
  let ?b = "filter (\<lambda>x. x \<noteq> []) (split_on CHR ''/'' (abspath cwd p))"
  obtain c where "common_loop (min ?a ?b) (max ?a ?b) = Inr c"
    using common_loop_min_max[of ?a ?b] by blast
  then show ?thesis by (simp add: relpath_of_def Let_def)
qed

lemma listing_row_spec:
  assumes "n \<noteq> []" and "CHR ''/'' \<notin> set n"
    and "\<not> startswith n ''.'' \<longrightarrow> os_stat w (path_str (Path2 d n)) \<in> {StatReg, StatDir}"
  shows "listing_row w self d n
           = Inr (if spec_listed w d n then Some (spec_entry w self d n) else None)"
proof (cases "startswith n ''.''")
  case True
  then show ?thesis by (simp add: listing_row_def spec_listed_def)
next
  case False
  obtain rel where rel: "relpath_of (getcwd w) (path_str (Path2 d n)) (base_dir self) = Inr rel"
    using relpath_of_total by blast
  have md: "(lower (path_suffix (Path2 d n)) = ''.md'') = endswith (lower n) ''.md''"
    using assms(1,2) False by (rule suffix_md)
  from False assms(3) consider
      (reg) "os_stat w (path_str (Path2 d n)) = StatReg"
    | (dir) "os_stat w (path_str (Path2 d n)) = StatDir" by auto
  then show ?thesis
  proof cases
    case reg
    show ?thesis
    proof (cases "endswith (lower n) ''.md''")
      case True
      with reg False rel md show ?thesis
        by (simp add: listing_row_def spec_listed_def spec_entry_def path_is_file_def
            path_is_dir_def icon_for_def ICONS_def Let_def)
    next
      case no: False
      with reg False md show ?thesis
        by (simp add: listing_row_def spec_listed_def path_is_file_def Let_def)
    qed
  next
    case dir
    with False rel show ?thesis
      by (simp add: listing_row_def spec_listed_def spec_entry_def path_is_file_def
          path_is_dir_def icon_for_def Let_def)
  qed
qed

lemma listing_rows_spec:
  assumes "\<forall>n\<in>set ns. n \<noteq> [] \<and> CHR ''/'' \<notin> set n
             \<and> (\<not> startswith n ''.'' \<longrightarrow> os_stat w (path_str (Path2 d n)) \<in> {StatReg, StatDir})"
  shows "listing_rows w self d ns = Inr (map (spec_entry w self d) (filter (spec_listed w d) ns))"
  using assms
proof (induction ns)
  case Nil
  then show ?case by simp
next
  case (Cons n ns)
  then have row: "listing_row w self d n
                   = Inr (if spec_listed w d n then Some (spec_entry w self d n) else None)"
    by (intro listing_row_spec) auto
  from Cons have "listing_rows w self d ns
                   = Inr (map (spec_entry w self d) (filter (spec_listed w d) ns))"
    by simp
  with row show ?case by simp
qed

lemma canonical_root_abs: "canonical_root b \<Longrightarrow> isabs b"
  unfolding canonical_root_def isabs_def startswith_def
  by (metis append_Cons append_Nil length_Cons list.size(3) take_Suc_Cons take_0)

lemma dispatch_contained:
  assumes "canonical_root (base_dir self)"
    and "path_within (base_dir self) (abspath (getcwd w) (request_file_path self parsed))"
  shows "dispatch w self (request_file_path self parsed) =
          (let file_path = request_file_path self parsed in
           if isfile w file_path then
             (if endswith file_path ''.md'' then serve_markdown w self file_path
              else serve_file w file_path)
           else if isdir w file_path then serve_directory w self file_path
           else SendError 404)"
proof -
  have "isabs (base_dir self)" using assms(1) by (rule canonical_root_abs)
  then have "take 1 (abspath (getcwd w) (request_file_path self parsed)) = ''/''"
    by (intro abspath_abs request_file_path_abs)
  then have "commonpath [base_dir self, abspath (getcwd w) (request_file_path self parsed)]
              = Inr (base_dir self)"
    using assms by (intro within_commonpath)
  then show ?thesis by (simp add: dispatch_def Let_def)
qed


section \<open>Serving files\<close>

lemma do_GET_contained:
  assumes "canonical_root (base_dir self)"
    and "urlparse_path (netloc_ok w) path = Inr parsed"
    and "path_within (base_dir self) (abspath (getcwd w) (request_file_path self parsed))"
  shows "do_GET w self path =
          (if isfile w (request_file_path self parsed) then
             (if endswith (request_file_path self parsed) ''.md''
              then serve_markdown w self (request_file_path self parsed)
              else serve_file w (request_file_path self parsed))
           else if isdir w (request_file_path self parsed)
             then serve_directory w self (request_file_path self parsed)
           else SendError 404)"
  using assms(2) dispatch_contained[OF assms(1,3)] by (simp add: do_GET_def Let_def)







text \<open>
  Claim C8, amended. When the Markdown library is absent, a request that resolves inside
  the root to a regular file whose path ends in \<open>.md\<close>, and whose bytes can be read and
  are well-formed UTF-8, is answered with status 200, content type
  \<open>text/plain; charset=utf-8\<close> and the text of the file as read in text mode (line
  endings become \<open>\n\<close>) as the body.
\<close>

theorem plain_text_without_markdown:
  assumes "canonical_root (base_dir self)"
    and "urlparse_path (netloc_ok w) path = Inr parsed"
    and "path_within (base_dir self) (abspath (getcwd w) (request_file_path self parsed))"
    and "os_stat w (request_file_path self parsed) = StatReg"
    and "endswith (request_file_path self parsed) ''.md''"
    and "markdown_lib w = None"
    and "os_read w (request_file_path self parsed) = Inr data"
    and "utf8_valid data"
  shows "do_GET w self path
           = Sent 200 [(''Content-type'', ''text/plain; charset=utf-8'')] (universal_newlines data)"
  using assms(4-8) do_GET_contained[OF assms(1-3)]
  by (simp add: isfile_def serve_markdown_def plain_text_fallback_def read_text_def)

theorem plain_text_without_markdown_witness:
  "do_GET (sample_world\<lparr>markdown_lib := None\<rparr>) sample_handler ''/my-notes.md''
     = Sent 200 [(''Content-type'', ''text/plain; charset=utf-8'')] (''# Hi'' @ [CHR 0x0A])"
proof -
  let ?w = "sample_world\<lparr>markdown_lib := None\<rparr>"
  have h1: "canonical_root (base_dir sample_handler)" by code_simp
  have h2: "urlparse_path (netloc_ok ?w) ''/my-notes.md'' = Inr ''/my-notes.md''"
    by code_simp
  have h3: "path_within (base_dir sample_handler)
              (abspath (getcwd ?w) (request_file_path sample_handler ''/my-notes.md''))"
    by code_simp
  have h4: "os_stat ?w (request_file_path sample_handler ''/my-notes.md'') = StatReg"
    by code_simp
  have h5: "endswith (request_file_path sample_handler ''/my-notes.md'') ''.md''"
    by code_simp
  have h6: "markdown_lib ?w = None" by simp
  have h7: "os_read ?w (request_file_path sample_handler ''/my-notes.md'')
              = Inr (''# Hi'' @ [CHR 0x0D, CHR 0x0A])"
    by code_simp
  have h8: "utf8_valid (''# Hi'' @ [CHR 0x0D, CHR 0x0A])" by code_simp
  have e: "universal_newlines (''# Hi'' @ [CHR 0x0D, CHR 0x0A]) = ''# Hi'' @ [CHR 0x0A]"
    by code_simp
  show ?thesis
    using plain_text_without_markdown[OF h1 h2 h3 h4 h5 h6 h7 h8] unfolding e .
qed

text \<open>
  The claim as stated fails on a Markdown file that cannot be opened while the library
  is absent: the error of the fallback is not caught and no response is written.
\<close>

theorem plain_text_counterexample:
  "path_within (base_dir sample_handler)
        (abspath (getcwd sample_world) (request_file_path sample_handler ''/locked.md''))
   \<and> os_stat (sample_world\<lparr>markdown_lib := None\<rparr>)
        (request_file_path sample_handler ''/locked.md'') = StatReg
   \<and> endswith (request_file_path sample_handler ''/locked.md'') ''.md''
   \<and> markdown_lib (sample_world\<lparr>markdown_lib := None\<rparr>) = None
   \<and> status (do_GET (sample_world\<lparr>markdown_lib := None\<rparr>) sample_handler ''/locked.md'')
        \<noteq> Some 200"
proof -
  have "path_within (base_dir sample_handler)
        (abspath (getcwd sample_world) (request_file_path sample_handler ''/locked.md''))
   \<and> os_stat (sample_world\<lparr>markdown_lib := None\<rparr>)
        (request_file_path sample_handler ''/locked.md'') = StatReg
   \<and> endswith (request_file_path sample_handler ''/locked.md'') ''.md''
   \<and> status (do_GET (sample_world\<lparr>markdown_lib := None\<rparr>) sample_handler ''/locked.md'')
        \<noteq> Some 200"
    by code_simp
  then show ?thesis by simp
qed


section \<open>Directory listings\<close>

lemma listing_rows_member:
  "listing_rows w self d ns = Inr rows \<Longrightarrow> n \<in> set ns
   \<Longrightarrow> listing_row w self d n = Inr (Some r) \<Longrightarrow> r \<in> set rows"
  by (induction ns arbitrary: rows) (auto split: sum.splits option.splits)

lemma sublist_concat: "r \<in> set rows \<Longrightarrow> sublist r (concat rows)"
proof -
  assume "r \<in> set rows"
  then obtain xs ys where "rows = xs @ r # ys" by (auto dest: split_list)
  then have "concat rows = concat xs @ r @ concat ys" by simp
  then show ?thesis by (metis sublist_appendI)
qed

lemma sublist_listing_page: "sublist r (concat rows) \<Longrightarrow> sublist r (listing_page t rows)"
proof -
  assume "sublist r (concat rows)"
  then obtain ps ss where "concat rows = ps @ r @ ss" by (auto simp: sublist_def)
  then have "listing_page t rows =
      (page_open @ title_open @ t @ title_close @ listing_style
        @ '' <h2>'' @ icon_open_folder @ '' '' @ t @ ''</h2>'' @ nl @ '' <ul>'' @ ps)
      @ r @ (ss @ ''</ul>'' @ page_close)"
    by (simp add: listing_page_def)
  then show ?thesis unfolding sublist_def by blast
qed

text \<open>
  Claim C3, amended. When the root directory is in canonical form, a request that
  resolves inside it to a directory that can be enumerated, whose entries without a
  leading dot are all regular files or directories, is answered with status 200 and
  content type \<open>text/html\<close>; the list of the page has one item for each entry that the
  specification lists (directories, and regular files ending in \<open>.md\<close> in any letter
  case, without a leading dot) and no other item, in the lexicographic order of the names.
\<close>

theorem serve_directory_listing:
  assumes "canonical_root (base_dir self)"
    and "urlparse_path (netloc_ok w) path = Inr parsed"
    and "d = request_file_path self parsed"
    and "path_within (base_dir self) (abspath (getcwd w) d)"
    and "os_stat w d = StatDir"
    and "os_listdir w d = Inr names"
    and "\<forall>n\<in>set names. n \<noteq> [] \<and> CHR ''/'' \<notin> set n
           \<and> (\<not> startswith n ''.'' \<longrightarrow> os_stat w (path_str (Path2 d n)) \<in> {StatReg, StatDir})"
  shows "\<exists>title_text shown.
           do_GET w self path
             = Sent 200 [(''Content-type'', ''text/html'')]
                 (listing_page title_text (map (spec_entry w self d) shown))
           \<and> shown = filter (spec_listed w d) (sort names)
           \<and> sorted shown
           \<and> set shown = {n \<in> set names. spec_listed w d n}"
proof -
  let ?shown = "filter (spec_listed w d) (sort names)"
  have run: "do_GET w self path = serve_directory w self d"
    using assms(5) do_GET_contained[OF assms(1,2) assms(4)[unfolded assms(3)]]
    by (simp add: isfile_def isdir_def assms(3))
  have rows: "listing_rows w self d (sort names) = Inr (map (spec_entry w self d) ?shown)"
    using assms(7) by (intro listing_rows_spec) simp
  have "isabs d"
    unfolding assms(3) using assms(1) by (intro request_file_path_abs canonical_root_abs)
  then have "d \<noteq> []" by (auto simp: isabs_def startswith_def)
  moreover obtain current where "relpath_of (getcwd w) d (base_dir self) = Inr current"
    using relpath_of_total by blast
  ultimately have sd: "serve_directory w self d
      = Sent 200 [(''Content-type'', ''text/html'')]
          (listing_page (pretty (if current = ''.'' then ''.'' else current))
             (map (spec_entry w self d) ?shown))"
    using assms(6) rows by (simp add: serve_directory_def relpath_def)
  have so: "sorted ?shown" by (simp add: sorted_wrt_filter)
  have se: "set ?shown = {n \<in> set names. spec_listed w d n}" by auto
  show ?thesis
    apply (rule exI[of _ "pretty (if current = ''.'' then ''.'' else current)"])
    apply (rule exI[of _ ?shown])
    using run sd so se apply simp
    done
qed

theorem serve_directory_listing_witness:
  "\<exists>title_text. do_GET sample_world sample_handler ''/sub''
     = Sent 200 [(''Content-type'', ''text/html'')]
         (listing_page title_text
            [''<li>'' @ icon_memo @ '' <a href='' @ [CHR 0x22] @ ''/sub/a.md'' @ [CHR 0x22]
               @ ''>A.Md</a></li>'',
             ''<li>'' @ icon_memo @ '' <a href='' @ [CHR 0x22] @ ''/sub/b.md'' @ [CHR 0x22]
               @ ''>B.Md</a></li>''])"
proof -
  have h1: "canonical_root (base_dir sample_handler)" by code_simp
  have h2: "urlparse_path (netloc_ok sample_world) ''/sub'' = Inr ''/sub''" by code_simp
  have h3: "''/srv/docs/sub'' = request_file_path sample_handler ''/sub''" by code_simp
  have h4: "path_within (base_dir sample_handler) (abspath (getcwd sample_world) ''/srv/docs/sub'')"
    by code_simp
  have h5: "os_stat sample_world ''/srv/docs/sub'' = StatDir" by code_simp
  have h6: "os_listdir sample_world ''/srv/docs/sub'' = Inr [''b.md'', ''a.md'', ''.git'', ''c.txt'']"
    by code_simp
  have h7: "\<forall>n\<in>set [''b.md'', ''a.md'', ''.git'', ''c.txt'']. n \<noteq> [] \<and> CHR ''/'' \<notin> set n
           \<and> (\<not> startswith n ''.'' \<longrightarrow>
                os_stat sample_world (path_str (Path2 ''/srv/docs/sub'' n)) \<in> {StatReg, StatDir})"
    by code_simp
  have e1: "filter (spec_listed sample_world ''/srv/docs/sub'')
              (sort [''b.md'', ''a.md'', ''.git'', ''c.txt'']) = [''a.md'', ''b.md'']"
    by code_simp
  have e2: "map (spec_entry sample_world sample_handler ''/srv/docs/sub'') [''a.md'', ''b.md'']
     = [''<li>'' @ icon_memo @ '' <a href='' @ [CHR 0x22] @ ''/sub/a.md'' @ [CHR 0x22]
               @ ''>A.Md</a></li>'',
        ''<li>'' @ icon_memo @ '' <a href='' @ [CHR 0x22] @ ''/sub/b.md'' @ [CHR 0x22]
               @ ''>B.Md</a></li>'']"
    by code_simp
  obtain title_text shown where
    r: "do_GET sample_world sample_handler ''/sub''
          = Sent 200 [(''Content-type'', ''text/html'')]
              (listing_page title_text
                 (map (spec_entry sample_world sample_handler ''/srv/docs/sub'') shown))"
    and s: "shown = filter (spec_listed sample_world ''/srv/docs/sub'')
                      (sort [''b.md'', ''a.md'', ''.git'', ''c.txt''])"
    using serve_directory_listing[OF h1 h2 h3 h4 h5 h6 h7] by blast
  have f: "do_GET sample_world sample_handler ''/sub''
     = Sent 200 [(''Content-type'', ''text/html'')]
         (listing_page title_text
            [''<li>'' @ icon_memo @ '' <a href='' @ [CHR 0x22] @ ''/sub/a.md'' @ [CHR 0x22]
               @ ''>A.Md</a></li>'',
             ''<li>'' @ icon_memo @ '' <a href='' @ [CHR 0x22] @ ''/sub/b.md'' @ [CHR 0x22]
               @ ''>B.Md</a></li>''])"
    using r unfolding s e1 e2 .
  show ?thesis by (rule exI[where x = title_text], rule f)
qed

text \<open>
  The claim as stated fails on a directory that cannot be enumerated: the \<open>except\<close>
  branch of \<open>serve_directory\<close> answers 500.
\<close>

theorem serve_directory_counterexample:
  "canonical_root (base_dir sample_handler)
   \<and> path_within (base_dir sample_handler)
        (abspath (getcwd sample_world) (request_file_path sample_handler ''/private''))
   \<and> os_stat sample_world (request_file_path sample_handler ''/private'') = StatDir
   \<and> do_GET sample_world sample_handler ''/private'' = SendError 500"
  by code_simp


lemma lower_append: "lower (a @ b) = lower a @ lower b"
  by (simp add: lower_def)

lemma case_variant_row:
  assumes "ext \<in> {''.MD'', ''.Md'', ''.mD''}" and "stem \<noteq> []"
    and "\<not> startswith stem ''.''" and "CHR ''/'' \<notin> set stem"
    and "os_stat w (path_str (Path2 d (stem @ ext))) = StatReg"
  shows "listing_row w self d (stem @ ext) = Inr (Some (spec_entry w self d (stem @ ext)))"
proof -
  have lo: "lower ext = ''.md''"
    using assms(1)
    by (auto simp: lower_def to_lower_def ascii_uppercase_def ascii_lowercase_def)
  have ns: "CHR ''/'' \<notin> set (stem @ ext)" using assms(1,4) by auto
  have nh: "\<not> startswith (stem @ ext) ''.''"
    using assms(2,3) by (cases stem) (auto simp: startswith_def)
  have "endswith (lower (stem @ ext)) ''.md''"
    unfolding lower_append lo endswith_iff by blast
  then have "spec_listed w d (stem @ ext)"
    using nh assms(5) by (simp add: spec_listed_def)
  moreover have "listing_row w self d (stem @ ext)
      = Inr (if spec_listed w d (stem @ ext) then Some (spec_entry w self d (stem @ ext)) else None)"
    using assms(2,5) ns by (intro listing_row_spec) auto
  ultimately show ?thesis by simp
qed

lemma serve_directory_rows:
  assumes "serve_directory w self d = Sent code hs page"
  shows "\<exists>names rows t. os_listdir w d = Inr names
            \<and> listing_rows w self d (sort names) = Inr rows \<and> page = listing_page t rows"
  using assms by (auto simp: serve_directory_def split: sum.splits)

lemma case_variant_not_md:
  assumes "ext \<in> {''.MD'', ''.Md'', ''.mD''}" and "endswith fp (stem @ ext)"
  shows "\<not> endswith fp ''.md''"
proof
  assume "endswith fp ''.md''"
  then obtain a where a: "fp = a @ ''.md''" by (auto simp: endswith_iff)
  from assms(2) obtain b where b: "fp = (b @ stem) @ ext" by (auto simp: endswith_iff)
  have "length ext = length ''.md''" using assms(1) by auto
  with a b have "ext = ''.md''"
    by (metis append_eq_append_conv)
  with assms(1) show False by auto
qed

text \<open>
  Claim C10, amended. Take a name that does not begin with a dot and ends in \<open>.MD\<close>,
  \<open>.Md\<close> or \<open>.mD\<close>. If it is a regular file among the names of a directory, every
  listing page served for that directory holds its list item. A request that resolves
  inside the root to a regular file whose path ends in that name is handled by
  \<open>serve_file\<close>: when the bytes can be read they are the body, with their number as
  \<open>Content-Length\<close>; the Markdown renderer is not used.
\<close>

theorem case_variant_listed_but_raw:
  assumes "ext \<in> {''.MD'', ''.Md'', ''.mD''}" and "stem \<noteq> []"
    and "\<not> startswith stem ''.''" and "CHR ''/'' \<notin> set stem"
  shows "(os_listdir w d = Inr names \<and> stem @ ext \<in> set names
            \<and> os_stat w (path_str (Path2 d (stem @ ext))) = StatReg
            \<and> serve_directory w self d = Sent code hs page
          \<longrightarrow> sublist (spec_entry w self d (stem @ ext)) page)
       \<and> (canonical_root (base_dir self) \<and> urlparse_path (netloc_ok w) path = Inr parsed
            \<and> path_within (base_dir self) (abspath (getcwd w) (request_file_path self parsed))
            \<and> os_stat w (request_file_path self parsed) = StatReg
            \<and> endswith (request_file_path self parsed) (stem @ ext)
          \<longrightarrow> do_GET w self path = serve_file w (request_file_path self parsed)
              \<and> (\<forall>data. os_read w (request_file_path self parsed) = Inr data
                    \<longrightarrow> do_GET w self path
                          = Sent 200 [(''Content-Length'', str_nat (length data))] data))"
proof (intro conjI impI)
  assume a: "os_listdir w d = Inr names \<and> stem @ ext \<in> set names
            \<and> os_stat w (path_str (Path2 d (stem @ ext))) = StatReg
            \<and> serve_directory w self d = Sent code hs page"
  then obtain names' rows t where r: "os_listdir w d = Inr names'"
      "listing_rows w self d (sort names') = Inr rows" "page = listing_page t rows"
    using serve_directory_rows by blast
  with a have "names' = names" by simp
  then have "stem @ ext \<in> set (sort names')" using a by simp
  moreover have "listing_row w self d (stem @ ext) = Inr (Some (spec_entry w self d (stem @ ext)))"
    using assms a by (intro case_variant_row) auto
  ultimately have "spec_entry w self d (stem @ ext) \<in> set rows"
    using r(2) listing_rows_member by blast
  then show "sublist (spec_entry w self d (stem @ ext)) page"
    unfolding r(3) by (intro sublist_listing_page sublist_concat)
next
  assume b: "canonical_root (base_dir self) \<and> urlparse_path (netloc_ok w) path = Inr parsed
            \<and> path_within (base_dir self) (abspath (getcwd w) (request_file_path self parsed))
            \<and> os_stat w (request_file_path self parsed) = StatReg
            \<and> endswith (request_file_path self parsed) (stem @ ext)"
  then have nm: "\<not> endswith (request_file_path self parsed) ''.md''"
    using assms(1) case_variant_not_md by blast
  have run: "do_GET w self path =
          (if isfile w (request_file_path self parsed) then
             (if endswith (request_file_path self parsed) ''.md''
              then serve_markdown w self (request_file_path self parsed)
              else serve_file w (request_file_path self parsed))
           else if isdir w (request_file_path self parsed)
             then serve_directory w self (request_file_path self parsed)
           else SendError 404)"
    using b by (intro do_GET_contained) auto
  show "do_GET w self path = serve_file w (request_file_path self parsed)"
    using run nm b by (simp add: isfile_def)
  then show "\<forall>data. os_read w (request_file_path self parsed) = Inr data
                    \<longrightarrow> do_GET w self path
                          = Sent 200 [(''Content-Length'', str_nat (length data))] data"
    by (simp add: serve_file_def)
qed

end
